theory Spec2Isabelle
  imports Complex_Main
begin

section \<open>Insertion-ordered maps\<close>

text \<open>
  The server keeps its rooms and each room's users in JavaScript \<open>Map\<close> objects, and the
  client keeps its players in a plain object with string keys. All of them iterate in
  insertion order, so they are association lists here: \<open>map_of\<close> is \<open>get\<close>,
  \<open>set_entry\<close> is \<open>set\<close> (an existing key keeps its place, a new key goes to the end)
  and \<open>delete_entry\<close> is \<open>delete\<close>. Reading a property of the plain object also finds
  what the object inherits; that is \<open>prop_get\<close> below.
\<close>

fun set_entry :: "'k \<Rightarrow> 'v \<Rightarrow> ('k \<times> 'v) list \<Rightarrow> ('k \<times> 'v) list" where
  "set_entry k v [] = [(k, v)]"
| "set_entry k v (p # ps) = (if fst p = k then (k, v) # ps else p # set_entry k v ps)"

definition delete_entry :: "'k \<Rightarrow> ('k \<times> 'v) list \<Rightarrow> ('k \<times> 'v) list" where
  "delete_entry k ps = filter (\<lambda>p. fst p \<noteq> k) ps"

definition has :: "('k \<times> 'v) list \<Rightarrow> 'k \<Rightarrow> bool" where
  "has ps k = (map_of ps k \<noteq> None)"

section \<open>The session server\<close>

subsection \<open>Rooms, users and messages\<close>

type_synonym socket_id = string
type_synonym room_key = string

text \<open>The user structure of the server: \<open>{id, name, isHost, socketId}\<close>.\<close>

record user =
  id_user :: string
  name_user :: string
  isHost :: bool
  socketId :: socket_id

text \<open>
  The room structure: \<open>{id, name, videoUrl, isPlaying, currentTime, users, createdAt}\<close>.
  \<open>currentTime\<close> is whatever number the client sent; \<open>createdAt\<close> is the clock reading
  at creation.
\<close>

record room =
  id_room :: room_key
  name_room :: string
  videoUrl :: string
  isPlaying_room :: bool
  currentTime_room :: real
  users :: "(socket_id \<times> user) list"
  createdAt :: nat

text \<open>The part of a room that \<open>room-joined\<close> and \<open>room-created\<close> send.\<close>

record room_view =
  id_view :: room_key
  name_view :: string
  videoUrl_view :: string
  isPlaying_view :: bool
  currentTime_view :: real

definition view_of :: "room \<Rightarrow> room_view" where
  "view_of r = \<lparr>id_view = id_room r, name_view = name_room r, videoUrl_view = videoUrl r,
     isPlaying_view = isPlaying_room r, currentTime_view = currentTime_room r\<rparr>"

text \<open>The messages the server sends to a connection.\<close>

datatype server_msg =
    ErrorMsg string
  | RoomJoined room_view user "user list"
  | UserJoined user "user list"
  | RoomCreated room_view user "user list"
  | PlayMsg real
  | PauseMsg real
  | SeekMsg real
  | VideoChanged string
  | NewMessage string string string nat
  | UserLeft user "user list"

text \<open>
  The state of the server: the \<open>rooms\<close> map of the program, and the rooms of the
  socket library (\<open>joined k\<close> is the set of connections that called \<open>socket.join(k)\<close>
  and are still connected). The library, not the program, decides who receives an
  emit, so it is part of the state.
\<close>

record server =
  rooms :: "(room_key \<times> room) list"
  joined :: "room_key \<Rightarrow> socket_id set"

definition init_server :: server where
  "init_server = \<lparr>rooms = [], joined = (\<lambda>k. {})\<rparr>"

type_synonym outbox = "(socket_id \<times> server_msg) set"

text \<open>
  \<open>socket.emit\<close> reaches the connection itself, \<open>socket.to(k).emit\<close> every connection
  joined to \<open>k\<close> except the sending one, \<open>io.to(k).emit\<close> every connection joined to
  \<open>k\<close>.
\<close>

definition emit_self :: "socket_id \<Rightarrow> server_msg \<Rightarrow> outbox" where
  "emit_self sock m = {(sock, m)}"

definition emit_others :: "server \<Rightarrow> socket_id \<Rightarrow> room_key \<Rightarrow> server_msg \<Rightarrow> outbox" where
  "emit_others st sock k m = (\<lambda>c. (c, m)) ` (joined st k - {sock})"

definition emit_all :: "server \<Rightarrow> room_key \<Rightarrow> server_msg \<Rightarrow> outbox" where
  "emit_all st k m = (\<lambda>c. (c, m)) ` joined st k"

definition socket_join :: "socket_id \<Rightarrow> room_key \<Rightarrow> server \<Rightarrow> server" where
  "socket_join sock k st = st\<lparr>joined := (joined st)(k := insert sock (joined st k))\<rparr>"

subsection \<open>The handlers\<close>

text \<open>
  Each handler takes the state, the connection whose event it handles and the payload
  of the event, and returns the new state and the messages sent. Identifiers from
  \<open>uuidv4()\<close> and readings of the clock are arguments.
\<close>

definition join_room ::
  "server \<Rightarrow> socket_id \<Rightarrow> room_key \<Rightarrow> string \<Rightarrow> string \<Rightarrow> server \<times> outbox" where
  "join_room st sock roomId userName uuid =
     (case map_of (rooms st) roomId of
        None \<Rightarrow> (st, emit_self sock (ErrorMsg ''Room not found''))
      | Some r \<Rightarrow>
          let u = \<lparr>id_user = uuid, name_user = userName, isHost = (users r = []),
                   socketId = sock\<rparr>;
              r' = r\<lparr>users := set_entry sock u (users r)\<rparr>;
              st' = socket_join sock roomId (st\<lparr>rooms := set_entry roomId r' (rooms st)\<rparr>)
          in (st', emit_self sock (RoomJoined (view_of r') u (map snd (users r')))
                   \<union> emit_others st' sock roomId (UserJoined u (map snd (users r')))))"

definition create_room ::
  "server \<Rightarrow> socket_id \<Rightarrow> string \<Rightarrow> string \<Rightarrow> string option \<Rightarrow> string \<Rightarrow> string \<Rightarrow> nat
     \<Rightarrow> server \<times> outbox" where
  "create_room st sock roomName userName url roomId uuid now =
     (let u = \<lparr>id_user = uuid, name_user = userName, isHost = True, socketId = sock\<rparr>;
          r = \<lparr>id_room = roomId, name_room = roomName,
               videoUrl = (case url of None \<Rightarrow> [] | Some v \<Rightarrow> v),
               isPlaying_room = False, currentTime_room = 0, users = [(sock, u)],
               createdAt = now\<rparr>;
          st' = socket_join sock roomId (st\<lparr>rooms := set_entry roomId r (rooms st)\<rparr>)
      in (st', emit_self sock (RoomCreated (view_of r) u (map snd (users r)))))"

definition play :: "server \<Rightarrow> socket_id \<Rightarrow> room_key \<Rightarrow> real \<Rightarrow> server \<times> outbox" where
  "play st sock roomId t =
     (case map_of (rooms st) roomId of
        None \<Rightarrow> (st, {})
      | Some r \<Rightarrow>
          (st\<lparr>rooms := set_entry roomId (r\<lparr>isPlaying_room := True, currentTime_room := t\<rparr>)
                          (rooms st)\<rparr>,
           emit_others st sock roomId (PlayMsg t)))"

definition pause :: "server \<Rightarrow> socket_id \<Rightarrow> room_key \<Rightarrow> real \<Rightarrow> server \<times> outbox" where
  "pause st sock roomId t =
     (case map_of (rooms st) roomId of
        None \<Rightarrow> (st, {})
      | Some r \<Rightarrow>
          (st\<lparr>rooms := set_entry roomId (r\<lparr>isPlaying_room := False, currentTime_room := t\<rparr>)
                          (rooms st)\<rparr>,
           emit_others st sock roomId (PauseMsg t)))"

definition seek :: "server \<Rightarrow> socket_id \<Rightarrow> room_key \<Rightarrow> real \<Rightarrow> server \<times> outbox" where
  "seek st sock roomId t =
     (case map_of (rooms st) roomId of
        None \<Rightarrow> (st, {})
      | Some r \<Rightarrow>
          (st\<lparr>rooms := set_entry roomId (r\<lparr>currentTime_room := t\<rparr>) (rooms st)\<rparr>,
           emit_others st sock roomId (SeekMsg t)))"

definition change_video :: "server \<Rightarrow> socket_id \<Rightarrow> room_key \<Rightarrow> string \<Rightarrow> server \<times> outbox" where
  "change_video st sock roomId url =
     (case map_of (rooms st) roomId of
        None \<Rightarrow> (st, {})
      | Some r \<Rightarrow>
          (st\<lparr>rooms := set_entry roomId
                          (r\<lparr>videoUrl := url, isPlaying_room := False, currentTime_room := 0\<rparr>)
                          (rooms st)\<rparr>,
           emit_all st roomId (VideoChanged url)))"

definition send_message ::
  "server \<Rightarrow> socket_id \<Rightarrow> room_key \<Rightarrow> string \<Rightarrow> string \<Rightarrow> string \<Rightarrow> nat \<Rightarrow> server \<times> outbox" where
  "send_message st sock roomId message userName uuid now =
     (st, emit_all st roomId (NewMessage uuid userName message now))"

text \<open>
  The loop of the disconnect handler stops at the first room, in the order of the
  \<open>rooms\<close> map, whose users contain the connection.
\<close>

fun find_room :: "socket_id \<Rightarrow> (room_key \<times> room) list \<Rightarrow> (room_key \<times> room) option" where
  "find_room sock [] = None"
| "find_room sock (p # ps) = (if has (users (snd p)) sock then Some p else find_room sock ps)"

text \<open>\<open>newHost = room.users.values().next().value; newHost.isHost = true\<close>.\<close>

fun promote_first :: "(socket_id \<times> user) list \<Rightarrow> (socket_id \<times> user) list" where
  "promote_first [] = []"
| "promote_first (p # ps) = (fst p, (snd p)\<lparr>isHost := True\<rparr>) # ps"

text \<open>
  The socket library takes a closing connection out of all of its rooms before it
  calls the handler, so \<open>socket.to(roomId)\<close> in the handler is read in the state
  without the connection.
\<close>

definition socket_leave_all :: "socket_id \<Rightarrow> server \<Rightarrow> server" where
  "socket_leave_all sock st = st\<lparr>joined := (\<lambda>k. joined st k - {sock})\<rparr>"

definition disconnect :: "server \<Rightarrow> socket_id \<Rightarrow> server \<times> outbox" where
  "disconnect st0 sock =
     (let st = socket_leave_all sock st0 in
      case find_room sock (rooms st) of
        None \<Rightarrow> (st, {})
      | Some (roomId, r) \<Rightarrow>
          (case map_of (users r) sock of
             None \<Rightarrow> (st, {})
           | Some u \<Rightarrow>
               let us = delete_entry sock (users r);
                   us' = (if isHost u \<and> us \<noteq> [] then promote_first us else us);
                   r' = r\<lparr>users := us'\<rparr>
               in if us' = [] then (st\<lparr>rooms := delete_entry roomId (rooms st)\<rparr>, {})
                  else (st\<lparr>rooms := set_entry roomId r' (rooms st)\<rparr>,
                        emit_others st sock roomId (UserLeft u (map snd us')))))"

text \<open>The events of a connection, and the server run over a sequence of them.\<close>

datatype client_event =
    JoinRoom room_key string string
  | CreateRoom string string "string option" string string nat
  | Play room_key real
  | Pause room_key real
  | Seek room_key real
  | ChangeVideo room_key string
  | SendMessage room_key string string string nat
  | Disconnect

fun handle :: "server \<Rightarrow> socket_id \<times> client_event \<Rightarrow> server \<times> outbox" where
  "handle st (sock, JoinRoom k n uuid) = join_room st sock k n uuid"
| "handle st (sock, CreateRoom rn un url k uuid now) = create_room st sock rn un url k uuid now"
| "handle st (sock, Play k t) = play st sock k t"
| "handle st (sock, Pause k t) = pause st sock k t"
| "handle st (sock, Seek k t) = seek st sock k t"
| "handle st (sock, ChangeVideo k url) = change_video st sock k url"
| "handle st (sock, SendMessage k m un uuid now) = send_message st sock k m un uuid now"
| "handle st (sock, Disconnect) = disconnect st sock"

fun run :: "server \<Rightarrow> (socket_id \<times> client_event) list \<Rightarrow> server" where
  "run st [] = st"
| "run st (e # es) = run (fst (handle st e)) es"

definition participants :: "room \<Rightarrow> socket_id set" where
  "participants r = fst ` set (users r)"

definition hosts :: "room \<Rightarrow> user list" where
  "hosts r = filter isHost (map snd (users r))"

section \<open>The client: playback aggregator and local relay\<close>

subsection \<open>Environment, players and events\<close>

text \<open>
  What the browser gives the component: whether the player API is loaded
  (\<open>window.YT && window.YT.Player\<close>), whether \<open>window.BroadcastChannel\<close> exists,
  whether \<open>localStorage.setItem\<close> succeeds (it raises otherwise, and the raise is
  caught and logged), and \<open>window.name\<close>.
\<close>

record env =
  yt_api :: bool
  broadcastChannel :: bool
  localStorage_ok :: bool
  window_name :: string

text \<open>
  The numbers of the player API for the states of a player. They are constants of the
  external player library, whose declaration in the repository gives only their type.
\<close>

definition UNSTARTED :: int where "UNSTARTED = -1"
definition ENDED :: int where "ENDED = 0"
definition PLAYING :: int where "PLAYING = 1"
definition PAUSED :: int where "PAUSED = 2"
definition BUFFERING :: int where "BUFFERING = 3"
definition CUED :: int where "CUED = 5"

text \<open>
  A player handle is an object of the external library. The component only looks at
  which methods the handle has, at what \<open>getPlayerState()\<close> returns (\<open>None\<close>: the
  handle has no such method) and at whether a call of the handle raises.
\<close>

record player =
  playVideo :: bool
  pauseVideo :: bool
  seekTo :: bool
  getPlayerState :: "int option"
  throws :: bool

record video_data =
  id_video :: string
  url :: string
  title :: string
  startTime :: real
  windowId_video :: "string option"

text \<open>The payload of a relay event: \<open>{}\<close>, \<open>{time}\<close> or \<open>{videoId}\<close>.\<close>

record payload =
  time :: "real option"
  videoId :: "string option"

definition no_data :: payload where
  "no_data = \<lparr>time = None, videoId = None\<rparr>"

text \<open>The relay event \<open>{type, data, timestamp, windowId}\<close>.\<close>

record sync_event =
  type_ev :: string
  data_ev :: payload
  timestamp :: nat
  windowId :: string

text \<open>
  What a handler of the component does to the outside: a message posted on the
  broadcast channel, a write of the storage slot, a call of a player that returned,
  an alert.
\<close>

datatype effect =
    PostMessage sync_event
  | SetItem string sync_event
  | PlayVideo string
  | PauseVideo string
  | SeekTo string "real option"
  | Destroy string
  | Alert string

text \<open>
  The state of the component. \<open>readyPlayers\<close> and \<open>playingVideos\<close> are sets of the
  program, kept in insertion order; \<open>playersRef\<close> is the object from clip id to player
  handle. \<open>currentTime\<close> is \<open>None\<close> when a received seek event carried no time.
\<close>

record app =
  videos :: "video_data list"
  isPlaying :: bool
  currentTime :: "real option"
  loopEnabled :: bool
  playersReady :: nat
  playingVideos :: "string list"
  readyPlayers :: "string list"
  playersRef :: "(string \<times> player) list"

definition set_add :: "'a \<Rightarrow> 'a list \<Rightarrow> 'a list" where
  "set_add x xs = (if x \<in> set xs then xs else xs @ [x])"

subsection \<open>The local relay\<close>

text \<open>\<open>window.name || 'main'\<close>.\<close>

definition own_id :: "env \<Rightarrow> string" where
  "own_id e = (if window_name e = [] then ''main'' else window_name e)"

definition broadcastSyncEvent :: "env \<Rightarrow> nat \<Rightarrow> string \<Rightarrow> payload \<Rightarrow> effect list" where
  "broadcastSyncEvent e now eventType d =
     (let event = \<lparr>type_ev = eventType, data_ev = d, timestamp = now, windowId = own_id e\<rparr>
      in (if broadcastChannel e then [PostMessage event] else [])
         @ (if localStorage_ok e then [SetItem ''viewsync_event'' event] else []))"

text \<open>
  A loop over the players with no \<open>try\<close> inside: the first call that raises ends the
  loop. With a \<open>try\<close> inside, a call that raises is skipped.
\<close>

fun call_each ::
  "(string \<Rightarrow> effect) \<Rightarrow> (player \<Rightarrow> bool) \<Rightarrow> (string \<times> player) list \<Rightarrow> effect list" where
  "call_each f m [] = []"
| "call_each f m (kp # ps) =
     (if m (snd kp) then (if throws (snd kp) then [] else f (fst kp) # call_each f m ps)
      else call_each f m ps)"

definition try_each ::
  "(string \<Rightarrow> effect) \<Rightarrow> (player \<Rightarrow> bool) \<Rightarrow> (string \<times> player) list \<Rightarrow> effect list" where
  "try_each f m ps = map (\<lambda>kp. f (fst kp)) (filter (\<lambda>kp. m (snd kp) \<and> \<not> throws (snd kp)) ps)"

definition handleSyncEvent :: "app \<Rightarrow> sync_event \<Rightarrow> app \<times> effect list" where
  "handleSyncEvent a event =
     (if type_ev event = ''play'' then
        (a\<lparr>isPlaying := True\<rparr>, call_each PlayVideo playVideo (playersRef a))
      else if type_ev event = ''pause'' then
        (a\<lparr>isPlaying := False\<rparr>, call_each PauseVideo pauseVideo (playersRef a))
      else if type_ev event = ''seek'' then
        (a\<lparr>currentTime := time (data_ev event)\<rparr>,
         call_each (\<lambda>k. SeekTo k (time (data_ev event))) seekTo (playersRef a))
      else (a, []))"

text \<open>
  What arrives at a subscriber: a message of the broadcast channel, whose data may be
  absent, or a storage event with a key and a new value, which may be absent, may not
  decode to an event object, or decodes to one.
\<close>

datatype stored = Malformed | Encoded sync_event

datatype incoming =
    ChannelMessage "sync_event option"
  | StorageEvent string "stored option"

text \<open>
  The two listeners. Each gives the event it passes to \<open>handleSyncEvent\<close>, or \<open>None\<close>
  when it does not call it.
\<close>

definition handleStorageChange :: "env \<Rightarrow> string \<Rightarrow> stored option \<Rightarrow> sync_event option" where
  "handleStorageChange e key newValue =
     (if key = ''viewsync_event'' then
        (case newValue of
           None \<Rightarrow> None
         | Some Malformed \<Rightarrow> None
         | Some (Encoded event) \<Rightarrow> if windowId event \<noteq> own_id e then Some event else None)
      else None)"

definition handleBroadcastMessage :: "env \<Rightarrow> sync_event option \<Rightarrow> sync_event option" where
  "handleBroadcastMessage e d =
     (case d of
        None \<Rightarrow> None
      | Some event \<Rightarrow>
          if type_ev event \<noteq> [] \<and> windowId event \<noteq> own_id e then Some event else None)"

text \<open>
  The subscription: the channel listener when \<open>window.BroadcastChannel\<close> exists, the
  storage listener otherwise; what comes over the other transport has no listener.
\<close>

definition applied_event :: "env \<Rightarrow> incoming \<Rightarrow> sync_event option" where
  "applied_event e i =
     (case i of
        ChannelMessage d \<Rightarrow> if broadcastChannel e then handleBroadcastMessage e d else None
      | StorageEvent key v \<Rightarrow> if broadcastChannel e then None else handleStorageChange e key v)"

definition receive :: "env \<Rightarrow> app \<Rightarrow> incoming \<Rightarrow> app \<times> effect list" where
  "receive e a i =
     (case applied_event e i of None \<Rightarrow> (a, []) | Some event \<Rightarrow> handleSyncEvent a event)"

subsection \<open>The playback aggregator\<close>

text \<open>
  \<open>playersRef.current[videoId]\<close> reads a property of a plain object: the player stored
  under the id, or, when none is stored, what the object inherits from
  \<open>Object.prototype\<close> under that name. Such an inherited value is not null and has none
  of the player methods, so every call of one on it raises. Clip ids are the strings of
  length 11 that \<open>extractVideoId\<close> returns; \<open>constructor\<close> is the inherited name of that
  length.
\<close>

definition inherited :: "string \<Rightarrow> bool" where
  "inherited k = (k \<in> set [''constructor'', ''hasOwnProperty'', ''isPrototypeOf'',
     ''propertyIsEnumerable'', ''toLocaleString'', ''toString'', ''valueOf'',
     ''__defineGetter__'', ''__defineSetter__'', ''__lookupGetter__'', ''__lookupSetter__'',
     ''__proto__''])"

definition prototype_member :: player where
  "prototype_member = \<lparr>playVideo = False, pauseVideo = False, seekTo = False,
     getPlayerState = None, throws = True\<rparr>"

definition prop_get :: "(string \<times> player) list \<Rightarrow> string \<Rightarrow> player option" where
  "prop_get ps k =
     (case map_of ps k of
        Some p \<Rightarrow> Some p
      | None \<Rightarrow> if inherited k then Some prototype_member else None)"

definition onPlayerReady :: "app \<Rightarrow> string \<Rightarrow> player \<Rightarrow> app \<times> effect list" where
  "onPlayerReady a k target =
     (let ps = set_entry k target (playersRef a);
          a' = a\<lparr>playersRef := ps, readyPlayers := set_add k (readyPlayers a),
                 playersReady := length ps\<rparr>
      in case find (\<lambda>v. id_video v = k) (videos a) of
           None \<Rightarrow> (a', [])
         | Some v \<Rightarrow>
             if startTime v > 0 then
               (if throws target \<or> \<not> seekTo target
                then (a\<lparr>playersRef := ps, readyPlayers := set_add k (readyPlayers a)\<rparr>, [])
                else (a', [SeekTo k (Some (startTime v))]))
             else (a', []))"

definition removeVideo :: "app \<Rightarrow> string \<Rightarrow> app \<times> effect list" where
  "removeVideo a k =
     (let a' = a\<lparr>videos := filter (\<lambda>v. id_video v \<noteq> k) (videos a)\<rparr>
      in case prop_get (playersRef a) k of
           None \<Rightarrow> (a', [])
         | Some p \<Rightarrow>
             if throws p then (a', [])
             else (a'\<lparr>playersRef := delete_entry k (playersRef a)\<rparr>, [Destroy k]))"

text \<open>
  The players \<open>playAll\<close> settles on: what \<open>playersRef.current[videoId]\<close> gives for the
  ids of the ready set, where it is not null, or all of \<open>playersRef\<close> when the ready set
  is empty, and, when that gives none, the players of \<open>playersRef\<close> with a \<open>playVideo\<close>
  function.
\<close>

definition ready_entries :: "app \<Rightarrow> (string \<times> player) list" where
  "ready_entries a =
     List.map_filter (\<lambda>k. map_option (Pair k) (prop_get (playersRef a) k)) (readyPlayers a)"

definition readyPlayersArray :: "app \<Rightarrow> (string \<times> player) list" where
  "readyPlayersArray a =
     (let arr = (if readyPlayers a \<noteq> [] then ready_entries a else playersRef a)
      in if arr = [] then filter (\<lambda>kp. playVideo (snd kp)) (playersRef a) else arr)"

text \<open>
  \<open>playAll\<close> up to the point where it sets its timers: the new state, the effects, and
  the players the timers are set for (none when it gives up with an alert).
\<close>

definition playAll :: "env \<Rightarrow> nat \<Rightarrow> app \<Rightarrow> app \<times> effect list \<times> (string \<times> player) list" where
  "playAll e now a =
     (if \<not> yt_api e then
        (a, [Alert ''YouTube API is not ready yet. Please wait a moment and try again.''], [])
      else if videos a = [] then
        (a, [Alert ''No videos loaded. Please add some videos first.''], [])
      else if readyPlayers a = [] \<and> playersRef a = [] then
        (a, [Alert ''Videos are still loading. Please wait for the videos to load completely.''], [])
      else if readyPlayersArray a = [] then
        (a, [Alert ''No functional video players found. Please refresh the page and try again.''], [])
      else (a\<lparr>isPlaying := True\<rparr>, broadcastSyncEvent e now ''play'' no_data,
            readyPlayersArray a))"

text \<open>
  One attempt on one player, the body of the timer set for it: whether the player was
  added to \<open>playingVideos\<close>, whether \<open>playVideo()\<close> was called and returned, whether
  \<open>playedCount\<close> went up, and whether a second try was set for a buffering player.
\<close>

record attempt_result =
  marked :: bool
  called :: bool
  counted :: bool
  retry :: bool

definition nothing_done :: attempt_result where
  "nothing_done = \<lparr>marked = False, called = False, counted = False, retry = False\<rparr>"

definition attempt :: "player \<Rightarrow> attempt_result" where
  "attempt p =
     (if playVideo p then
        (case getPlayerState p of
           None \<Rightarrow>
             \<lparr>marked = True, called = \<not> throws p, counted = \<not> throws p, retry = False\<rparr>
         | Some s \<Rightarrow>
             if throws p then nothing_done
             else if s = -1 \<or> s = UNSTARTED \<or> s = PAUSED \<or> s = CUED then
               \<lparr>marked = True, called = True, counted = True, retry = False\<rparr>
             else if s = PLAYING then
               \<lparr>marked = True, called = False, counted = True, retry = False\<rparr>
             else if s = BUFFERING then
               \<lparr>marked = False, called = False, counted = False, retry = True\<rparr>
             else nothing_done)
      else nothing_done)"

text \<open>
  The timers \<open>playAll\<close> sets: the attempt on the player at index \<open>i\<close> after \<open>200 i\<close>
  milliseconds, then the check of the results after \<open>100 n + 1000\<close>. Timers run in the
  order of their delays, and timers with the same delay in the order they were set.
\<close>

datatype timer = Attempt string player | Check

definition play_timers :: "(string \<times> player) list \<Rightarrow> (nat \<times> timer) list" where
  "play_timers es =
     map (\<lambda>ikp. (fst ikp * 200, Attempt (fst (snd ikp)) (snd (snd ikp)))) (enumerate 0 es)
     @ [(length es * 100 + 1000, Check)]"

definition firing_order :: "(nat \<times> timer) list \<Rightarrow> timer list" where
  "firing_order ts = map snd (sort_key fst ts)"



text \<open>
  The calls of \<open>playVideo()\<close> that the attempts make and that return, in the order the
  timers run, and the calls made by the second try that an attempt sets, half a second
  later, for a player it found buffering.
\<close>

fun call_of :: "timer \<Rightarrow> effect list" where
  "call_of (Attempt k p) = (if called (attempt p) then [PlayVideo k] else [])"
| "call_of Check = []"

definition attempt_calls :: "(string \<times> player) list \<Rightarrow> effect list" where
  "attempt_calls es = concat (map call_of (firing_order (play_timers es)))"





definition pauseAll :: "env \<Rightarrow> nat \<Rightarrow> app \<Rightarrow> app \<times> effect list" where
  "pauseAll e now a =
     (if \<not> yt_api e then (a, [])
      else (a\<lparr>isPlaying := False\<rparr>,
            broadcastSyncEvent e now ''pause'' no_data
            @ try_each PauseVideo pauseVideo (playersRef a)))"

definition seekAll :: "env \<Rightarrow> nat \<Rightarrow> app \<Rightarrow> real \<Rightarrow> app \<times> effect list" where
  "seekAll e now a t =
     (if \<not> yt_api e then (a, [])
      else (a\<lparr>currentTime := Some t\<rparr>,
            broadcastSyncEvent e now ''seek'' \<lparr>time = Some t, videoId = None\<rparr>
            @ try_each (\<lambda>k. SeekTo k (Some t)) seekTo (playersRef a)))"

text \<open>\<open>videos.length > 0 && videos[0].id === videoId\<close>.\<close>

definition isFirstVideo :: "app \<Rightarrow> string \<Rightarrow> bool" where
  "isFirstVideo a k = (case videos a of [] \<Rightarrow> False | v # _ \<Rightarrow> id_video v = k)"

text \<open>
  The state-change callback of a player. Reading \<open>window.YT.PlayerState\<close> raises when
  the player API is not loaded; the raise is caught and logged and nothing is done. In
  the loop branch a call of a method the player lacks raises too, and ends the branch.
\<close>

definition onPlayerStateChange ::
  "env \<Rightarrow> nat \<Rightarrow> app \<Rightarrow> string \<Rightarrow> int \<Rightarrow> app \<times> effect list" where
  "onPlayerStateChange e now a k d =
     (if \<not> yt_api e then (a, [])
      else if d = PLAYING then
        (a\<lparr>isPlaying := True\<rparr>,
         if isFirstVideo a k
         then broadcastSyncEvent e now ''play'' \<lparr>time = None, videoId = Some k\<rparr> else [])
      else if d = PAUSED then
        (a\<lparr>isPlaying := False\<rparr>,
         if isFirstVideo a k
         then broadcastSyncEvent e now ''pause'' \<lparr>time = None, videoId = Some k\<rparr> else [])
      else if d = ENDED \<and> loopEnabled a then
        (case prop_get (playersRef a) k of
           None \<Rightarrow> (a, [])
         | Some p \<Rightarrow>
             (a, if throws p \<or> \<not> seekTo p then []
                 else if \<not> playVideo p then [SeekTo k (Some 0)]
                 else [SeekTo k (Some 0), PlayVideo k]))
      else (a, []))"

section \<open>A session and a browser window to compute with\<close>

text \<open>
  Alice creates room R1 from connection \<open>s1\<close> and Bob joins it from connection \<open>s2\<close>.
\<close>

definition alice :: user where
  "alice = \<lparr>id_user = ''u1'', name_user = ''Alice'', isHost = True, socketId = ''s1''\<rparr>"

definition bob :: user where
  "bob = \<lparr>id_user = ''u2'', name_user = ''Bob'', isHost = False, socketId = ''s2''\<rparr>"

definition room_R1 :: "(socket_id \<times> user) list \<Rightarrow> room" where
  "room_R1 us = \<lparr>id_room = ''r1'', name_room = ''R1'', videoUrl = ''M'', isPlaying_room = False,
     currentTime_room = 0, users = us, createdAt = 0\<rparr>"

definition created :: server where
  "created = run init_server [(''s1'', CreateRoom ''R1'' ''Alice'' (Some ''M'') ''r1'' ''u1'' 0)]"

definition both_in :: server where
  "both_in = run created [(''s2'', JoinRoom ''r1'' ''Bob'' ''u2'')]"

definition room_R2 :: room where
  "room_R2 = \<lparr>id_room = ''r2'', name_room = ''R2'', videoUrl = [], isPlaying_room = False,
     currentTime_room = 0,
     users = [(''s3'', \<lparr>id_user = ''u3'', name_user = ''Carol'', isHost = True,
                        socketId = ''s3''\<rparr>)],
     createdAt = 1\<rparr>"

text \<open>Carol then creates a second room, R2, from connection \<open>s3\<close>.\<close>

definition two_rooms :: server where
  "two_rooms = run both_in [(''s3'', CreateRoom ''R2'' ''Carol'' None ''r2'' ''u3'' 1)]"

text \<open>
  Alice, alone, creates a second room from the same connection \<open>s1\<close> and then
  disconnects.
\<close>

definition orphaned :: server where
  "orphaned = run created [(''s1'', CreateRoom ''R2'' ''Alice'' None ''r2'' ''u4'' 1),
                           (''s1'', Disconnect)]"

text \<open>
  A window with the player API and both transports, and a component with two clips
  whose players are registered while the ready set is still empty: the first player
  is paused, the second has ended.
\<close>

definition browser :: env where
  "browser = \<lparr>yt_api = True, broadcastChannel = True, localStorage_ok = True,
     window_name = []\<rparr>"

definition clip :: "string \<Rightarrow> video_data" where
  "clip k = \<lparr>id_video = k, url = k, title = k, startTime = 0, windowId_video = None\<rparr>"

definition handle_in :: "int \<Rightarrow> player" where
  "handle_in s = \<lparr>playVideo = True, pauseVideo = True, seekTo = True,
     getPlayerState = Some s, throws = False\<rparr>"

definition component :: "(string \<times> player) list \<Rightarrow> app" where
  "component ps = \<lparr>videos = [clip ''a'', clip ''b''], isPlaying = False, currentTime = Some 0,
     loopEnabled = False, playersReady = 0, playingVideos = [], readyPlayers = [],
     playersRef = ps\<rparr>"

text \<open>
  The same component with ids in the ready set, and a handle that has none of the
  player methods.
\<close>

definition component_with :: "string list \<Rightarrow> (string \<times> player) list \<Rightarrow> app" where
  "component_with rs ps = (component ps)\<lparr>readyPlayers := rs\<rparr>"


section \<open>Lemmas on maps and on the two sessions\<close>

lemma map_of_set_entry: "map_of (set_entry k v ps) = (map_of ps)(k \<mapsto> v)"
  by (induction ps) (auto simp: fun_eq_iff)

lemma map_of_delete_entry: "map_of (delete_entry k ps) = (map_of ps)(k := None)"
  by (induction ps) (auto simp: delete_entry_def fun_eq_iff)

lemma keys_set_entry:
  "map_of ps k \<noteq> None \<Longrightarrow> map fst (set_entry k v ps) = map fst ps"
  by (induction ps) auto

lemma delete_only_key: "fst ` set ps = {k} \<Longrightarrow> delete_entry k ps = []"
  by (auto simp: delete_entry_def filter_empty_conv)

lemma find_room_Some:
  "find_room sock ps = Some (k, r) \<Longrightarrow> has (users r) sock \<and> (k, r) \<in> set ps"
  by (induction ps) (auto split: if_splits)

lemmas handler_defs =
  create_room_def join_room_def play_def pause_def seek_def change_video_def disconnect_def
  socket_join_def socket_leave_all_def emit_self_def emit_others_def emit_all_def
  view_of_def has_def delete_entry_def Let_def

lemma created_eq:
  "created = \<lparr>rooms = [(''r1'', room_R1 [(''s1'', alice)])],
              joined = (\<lambda>k. {})(''r1'' := {''s1''})\<rparr>"
  by (simp add: created_def init_server_def handler_defs room_R1_def alice_def)

lemma both_in_eq:
  "both_in = \<lparr>rooms = [(''r1'', room_R1 [(''s1'', alice), (''s2'', bob)])],
              joined = (\<lambda>k. {})(''r1'' := {''s2'', ''s1''})\<rparr>"
  by (simp add: both_in_def created_eq handler_defs room_R1_def alice_def bob_def)

lemma two_rooms_eq:
  "two_rooms = \<lparr>rooms = [(''r1'', room_R1 [(''s1'', alice), (''s2'', bob)]),
                         (''r2'', room_R2)],
                joined = (\<lambda>k. {})(''r1'' := {''s2'', ''s1''}, ''r2'' := {''s3''})\<rparr>"
  by (simp add: two_rooms_def both_in_eq handler_defs room_R1_def room_R2_def)

section \<open>Properties of the session server\<close>

text \<open>
  Claim C5. A \<open>join-room\<close> whose room id names no room answers the caller with the
  error \<open>Room not found\<close> and nothing else: the state returned is the state given (no
  room made or changed, no participant added) and the caller's error is the only
  message sent.
\<close>

theorem join_room_not_found:
  assumes "map_of (rooms st) roomId = None"
  shows "join_room st sock roomId userName uuid = (st, {(sock, ErrorMsg ''Room not found'')})"
  using assms by (simp add: join_room_def emit_self_def)

theorem join_room_not_found_witness:
  "map_of (rooms both_in) ''r7'' = None
   \<and> join_room both_in ''s3'' ''r7'' ''Carol'' ''u3''
       = (both_in, {(''s3'', ErrorMsg ''Room not found'')})"
  using join_room_not_found [of both_in "''r7''" "''s3''" "''Carol''" "''u3''"]
  by (simp add: both_in_eq)

text \<open>
  Claim C9. A \<open>play\<close>, \<open>pause\<close>, \<open>seek\<close> or \<open>change-video\<close> whose room id names no room
  does nothing: the state is returned as it was and no message is sent, to the caller
  or to anyone else.
\<close>

theorem unknown_room_command_noop:
  assumes "map_of (rooms st) roomId = None"
  shows "play st sock roomId t = (st, {}) \<and> pause st sock roomId t = (st, {})
       \<and> seek st sock roomId t = (st, {}) \<and> change_video st sock roomId v = (st, {})"
  using assms by (simp add: play_def pause_def seek_def change_video_def)

theorem unknown_room_command_noop_witness:
  "map_of (rooms both_in) ''r7'' = None
   \<and> play both_in ''s1'' ''r7'' 3 = (both_in, {})
   \<and> pause both_in ''s1'' ''r7'' 3 = (both_in, {})
   \<and> seek both_in ''s1'' ''r7'' 3 = (both_in, {})
   \<and> change_video both_in ''s1'' ''r7'' ''M2'' = (both_in, {})"
  using unknown_room_command_noop [of both_in "''r7''" "''s1''" 3 "''M2''"]
  by (simp add: both_in_eq)

text \<open>
  Claim C10. A \<open>seek\<close> on an existing room changes the \<open>currentTime\<close> of that room and
  nothing else: the room afterwards is the room before with the new position (same
  playing flag, media, users, name, id and creation time), every other room is as it
  was, the rooms are the same and in the same order, and the socket rooms are
  untouched.
\<close>

theorem seek_frame:
  assumes "map_of (rooms st) roomId = Some r"
  shows "map_of (rooms (fst (seek st sock roomId t))) roomId = Some (r\<lparr>currentTime_room := t\<rparr>)
       \<and> (\<forall>k. k \<noteq> roomId \<longrightarrow>
             map_of (rooms (fst (seek st sock roomId t))) k = map_of (rooms st) k)
       \<and> map fst (rooms (fst (seek st sock roomId t))) = map fst (rooms st)
       \<and> joined (fst (seek st sock roomId t)) = joined st"
  using assms by (simp add: seek_def map_of_set_entry keys_set_entry)

theorem seek_frame_witness:
  "map_of (rooms two_rooms) ''r1'' = Some (room_R1 [(''s1'', alice), (''s2'', bob)])
   \<and> map_of (rooms (fst (seek two_rooms ''s1'' ''r1'' 42))) ''r1''
       = Some ((room_R1 [(''s1'', alice), (''s2'', bob)])\<lparr>currentTime_room := 42\<rparr>)
   \<and> ''r2'' \<noteq> ''r1''
   \<and> map_of (rooms (fst (seek two_rooms ''s1'' ''r1'' 42))) ''r2'' = Some room_R2
   \<and> map fst (rooms (fst (seek two_rooms ''s1'' ''r1'' 42))) = [''r1'', ''r2'']"
  using seek_frame [of two_rooms "''r1''" "room_R1 [(''s1'', alice), (''s2'', bob)]" "''s1''" 42]
  by (simp add: two_rooms_eq)

text \<open>
  Claim C1, as the code has it. On an existing room, \<open>play\<close>, \<open>pause\<close> and \<open>seek\<close> send
  their event to every connection joined to the room except the sender, and send the
  sender nothing; \<open>change-video\<close> sends \<open>video-changed\<close> to every connection joined to
  the room, the sender included when it is joined. Where the connections joined to the
  room are the room's participants, every participant other than the sender receives
  the event of \<open>play\<close>, \<open>pause\<close> and \<open>seek\<close>, and every participant receives
  \<open>video-changed\<close>.
\<close>

theorem command_delivery:
  assumes "map_of (rooms st) roomId = Some r"
  shows "snd (play st sock roomId t) = (\<lambda>c. (c, PlayMsg t)) ` (joined st roomId - {sock})
       \<and> snd (pause st sock roomId t) = (\<lambda>c. (c, PauseMsg t)) ` (joined st roomId - {sock})
       \<and> snd (seek st sock roomId t) = (\<lambda>c. (c, SeekMsg t)) ` (joined st roomId - {sock})
       \<and> snd (change_video st sock roomId v) = (\<lambda>c. (c, VideoChanged v)) ` joined st roomId
       \<and> (\<forall>m. (sock, m) \<notin> snd (play st sock roomId t)
              \<and> (sock, m) \<notin> snd (pause st sock roomId t)
              \<and> (sock, m) \<notin> snd (seek st sock roomId t))
       \<and> (joined st roomId = participants r \<longrightarrow>
            (\<forall>c \<in> participants r. c \<noteq> sock \<longrightarrow>
               (c, PlayMsg t) \<in> snd (play st sock roomId t)
             \<and> (c, PauseMsg t) \<in> snd (pause st sock roomId t)
             \<and> (c, SeekMsg t) \<in> snd (seek st sock roomId t))
          \<and> (\<forall>c \<in> participants r. (c, VideoChanged v) \<in> snd (change_video st sock roomId v)))"
  using assms
  by (auto simp: play_def pause_def seek_def change_video_def emit_others_def emit_all_def)

theorem command_delivery_witness:
  "map_of (rooms two_rooms) ''r1'' = Some (room_R1 [(''s1'', alice), (''s2'', bob)])
   \<and> joined two_rooms ''r1'' = participants (room_R1 [(''s1'', alice), (''s2'', bob)])
   \<and> ''s2'' \<in> participants (room_R1 [(''s1'', alice), (''s2'', bob)]) \<and> ''s2'' \<noteq> ''s1''
   \<and> snd (play two_rooms ''s1'' ''r1'' 0) = {(''s2'', PlayMsg 0)}
   \<and> (''s2'', PauseMsg 0) \<in> snd (pause two_rooms ''s1'' ''r1'' 0)
   \<and> (''s2'', SeekMsg 0) \<in> snd (seek two_rooms ''s1'' ''r1'' 0)
   \<and> snd (change_video two_rooms ''s1'' ''r1'' ''M2'')
       = {(''s1'', VideoChanged ''M2''), (''s2'', VideoChanged ''M2'')}"
  using command_delivery
          [of two_rooms "''r1''" "room_R1 [(''s1'', alice), (''s2'', bob)]" "''s1''" 0 "''M2''"]
  by (auto simp: two_rooms_eq participants_def room_R1_def)

text \<open>
  The claim as the specification words it fails for \<open>change-video\<close>: Alice, alone in
  the room she created, changes the media and the \<open>video-changed\<close> event comes back to
  her own connection.
\<close>

theorem change_video_echoes_sender:
  "map_of (rooms created) ''r1'' = Some (room_R1 [(''s1'', alice)])
   \<and> (''s1'', VideoChanged ''M2'') \<in> snd (change_video created ''s1'' ''r1'' ''M2'')"
  by (simp add: created_eq change_video_def emit_all_def)

text \<open>
  When the connection that disconnects is the only participant of the first room, in
  the order of the \<open>rooms\<close> map, that holds it, that room is deleted in the same step:
  the room id names no room afterwards, and a \<open>join-room\<close> with that id is answered
  with \<open>Room not found\<close> and changes nothing.
\<close>

lemma empty_room_deleted:
  assumes "find_room sock (rooms st) = Some (roomId, r)" and "participants r = {sock}"
  shows "map_of (rooms (fst (disconnect st sock))) roomId = None
       \<and> join_room (fst (disconnect st sock)) sock' roomId userName uuid
           = (fst (disconnect st sock), {(sock', ErrorMsg ''Room not found'')})"
proof -
  have "has (users r) sock"
    using assms(1) find_room_Some by blast
  then obtain u where u: "map_of (users r) sock = Some u"
    by (auto simp: has_def)
  have gone: "delete_entry sock (users r) = []"
    using assms(2) by (simp add: participants_def delete_only_key)
  have "rooms (fst (disconnect st sock)) = delete_entry roomId (rooms st)"
    using assms(1) u gone by (simp add: disconnect_def socket_leave_all_def)
  then have "map_of (rooms (fst (disconnect st sock))) roomId = None"
    by (simp add: map_of_delete_entry)
  then show ?thesis
    by (simp add: join_room_def emit_self_def)
qed

lemma empty_room_deleted_at_created:
  "find_room ''s1'' (rooms created) = Some (''r1'', room_R1 [(''s1'', alice)])
   \<and> participants (room_R1 [(''s1'', alice)]) = {''s1''}
   \<and> map_of (rooms (fst (disconnect created ''s1''))) ''r1'' = None
   \<and> join_room (fst (disconnect created ''s1'')) ''s2'' ''r1'' ''Bob'' ''u2''
       = (fst (disconnect created ''s1''), {(''s2'', ErrorMsg ''Room not found'')})"
  using empty_room_deleted
          [of "''s1''" created "''r1''" "room_R1 [(''s1'', alice)]" "''s2''" "''Bob''" "''u2''"]
  by (simp add: created_eq participants_def room_R1_def has_def)

text \<open>
  Claim C8. The claim asks that every room whose last participant disconnects is
  deleted in that step, so that a later \<open>join-room\<close> finds no room. The handler stops
  at the first room that holds the connection. After Alice, alone, has created the
  rooms R1 and R2 from one connection and disconnects, R1 is deleted but R2 stays,
  with the closed connection as its only user and no connection joined to it, and a
  \<open>join-room\<close> for R2 from Bob's connection is not answered with \<open>Room not found\<close>: Bob
  is added to the room.
\<close>

theorem second_room_outlives_last_participant:
  "map (\<lambda>kr. (fst kr, map fst (users (snd kr)))) (rooms orphaned) = [(''r2'', [''s1''])]
   \<and> joined orphaned ''r2'' = {}
   \<and> (''s2'', ErrorMsg ''Room not found'') \<notin> snd (join_room orphaned ''s2'' ''r2'' ''Bob'' ''u2'')
   \<and> map (\<lambda>kr. (fst kr, map fst (users (snd kr))))
          (rooms (fst (join_room orphaned ''s2'' ''r2'' ''Bob'' ''u2'')))
       = [(''r2'', [''s1'', ''s2''])]"
  by (simp add: orphaned_def created_eq handler_defs room_R1_def alice_def)

text \<open>
  No handler run of a disconnect leaves a room without users behind: when every room
  has users before, every room has users after.
\<close>

lemma promote_first_Nil: "promote_first us = [] \<longleftrightarrow> us = []"
  by (cases us) auto

lemma disconnect_keeps_rooms_inhabited:
  assumes "\<forall>k r0. map_of (rooms st) k = Some r0 \<longrightarrow> users r0 \<noteq> []"
  shows "\<forall>k r1. map_of (rooms (fst (disconnect st sock))) k = Some r1 \<longrightarrow> users r1 \<noteq> []"
  using assms
  by (auto simp: disconnect_def socket_leave_all_def Let_def map_of_set_entry
        map_of_delete_entry promote_first_Nil split: option.splits if_splits)

text \<open>
  When the host leaves and others remain, the first of the remaining users, in the
  order of the room's map, becomes host. A map keeps its keys in the order they were
  first set, so this is the remaining user who joined first.
\<close>

lemma host_leaves_first_promoted:
  assumes "find_room sock (rooms st) = Some (roomId, r)"
    and "map_of (users r) sock = Some u" and "isHost u"
    and "delete_entry sock (users r) = p # ps"
  shows "map_of (rooms (fst (disconnect st sock))) roomId
           = Some (r\<lparr>users := (fst p, (snd p)\<lparr>isHost := True\<rparr>) # ps\<rparr>)"
  using assms by (simp add: disconnect_def socket_leave_all_def map_of_set_entry Let_def)

text \<open>
  Claim C4. The claim asks for exactly one host in every room that has participants.
  The code loses the host when the host's own connection sends \<open>join-room\<close> for the
  room it is in: the new user record, made with \<open>isHost\<close> false because the room is
  not empty, replaces the host's record under the same connection id. After Alice
  creates the room and joins it again from the same connection, the room has one
  participant and no host.
\<close>

theorem rejoin_leaves_no_host:
  "map (\<lambda>kr. (fst kr, length (users (snd kr)), length (hosts (snd kr))))
       (rooms (run created [(''s1'', JoinRoom ''r1'' ''Alice'' ''u9'')]))
   = [(''r1'', 1, 0)]"
  by (simp add: created_eq handler_defs hosts_def room_R1_def)

section \<open>Lemmas on the timers of playAll\<close>

text \<open>
  Sorting by delay a list that is already in the order of its delays, with one more
  timer set after it: the new timer goes behind every timer whose delay is not larger.
\<close>

lemma sort_key_snoc_sorted:
  "sorted (map f xs) \<Longrightarrow>
   sort_key f (xs @ [c]) = filter (\<lambda>x. f x \<le> f c) xs @ c # filter (\<lambda>x. f c < f x) xs"
proof (induction xs)
  case Nil
  then show ?case by simp
next
  case (Cons a xs)
  then have le: "\<forall>x \<in> set xs. f a \<le> f x" and srt: "sorted (map f xs)"
    by auto
  have ih: "sort_key f (xs @ [c]) = filter (\<lambda>x. f x \<le> f c) xs @ c # filter (\<lambda>x. f c < f x) xs"
    using Cons.IH srt by blast
  show ?case
  proof (cases "f a \<le> f c")
    case True
    then have "\<forall>x \<in> set (filter (\<lambda>x. f x \<le> f c) xs @ c # filter (\<lambda>x. f c < f x) xs). f a \<le> f x"
      using le by auto
    then show ?thesis
      using True ih by (simp add: insort_is_Cons)
  next
    case False
    then have "\<forall>x \<in> set xs. f c < f x"
      using le by force
    then have "filter (\<lambda>x. f x \<le> f c) xs = []" and "filter (\<lambda>x. f c < f x) xs = xs"
      by (auto simp: filter_empty_conv filter_id_conv)
    then show ?thesis
      using False ih le by (simp add: insort_is_Cons)
  qed
qed

lemma map_fst_then: "map (\<lambda>x. g (fst x)) xs = map g (map fst xs)"
  by (simp add: comp_def)


lemma sorted_attempt_delays:
  "sorted (map fst (map (\<lambda>ikp. (fst ikp * 200, Attempt (fst (snd ikp)) (snd (snd ikp))))
                        (enumerate n es)))"
proof -
  have "map fst (map (\<lambda>ikp. (fst ikp * 200, Attempt (fst (snd ikp)) (snd (snd ikp))))
                     (enumerate n es))
        = map (\<lambda>x. fst x * 200) (enumerate n es)"
    by (simp add: comp_def)
  also have "\<dots> = map (\<lambda>i. i * 200) [n..<n + length es]"
    using map_fst_then [of "\<lambda>i. i * 200" "enumerate n es"] by simp
  finally show ?thesis
    by (simp add: sorted_map sorted_wrt_iff_nth_less)
qed





text \<open>
  Sorting leaves a list that is in the order of its delays as it is, so the attempts
  run in the order of the players.
\<close>

lemma sorted_filter_split:
  "sorted (map f xs) \<Longrightarrow> filter (\<lambda>x. f x \<le> c) xs @ filter (\<lambda>x. c < f x) xs = xs"
proof (induction xs)
  case Nil
  then show ?case by simp
next
  case (Cons a xs)
  then have le: "\<forall>x \<in> set xs. f a \<le> f x" and ih: "filter (\<lambda>x. f x \<le> c) xs @ filter (\<lambda>x. c < f x) xs = xs"
    by auto
  show ?case
  proof (cases "f a \<le> c")
    case True
    then show ?thesis using ih by simp
  next
    case False
    then have "\<forall>x \<in> set xs. c < f x"
      using le by force
    then have "filter (\<lambda>x. f x \<le> c) xs = []" and "filter (\<lambda>x. c < f x) xs = xs"
      by (auto simp: filter_empty_conv filter_id_conv)
    then show ?thesis using False by simp
  qed
qed

lemma concat_call_of:
  "concat (map call_of (map snd (map (\<lambda>ikp. (fst ikp * 200, Attempt (fst (snd ikp)) (snd (snd ikp)))) xs)))
   = map (\<lambda>kp. PlayVideo (fst kp)) (filter (\<lambda>kp. called (attempt (snd kp))) (map snd xs))"
  by (induction xs) auto

lemma attempt_calls_eq:
  "attempt_calls es
   = map (\<lambda>kp. PlayVideo (fst kp)) (filter (\<lambda>kp. called (attempt (snd kp))) es)"
proof -
  let ?A = "map (\<lambda>ikp. (fst ikp * 200, Attempt (fst (snd ikp)) (snd (snd ikp)))) (enumerate 0 es)"
  let ?T = "length es * 100 + 1000"
  have "sort_key fst (play_timers es)
        = filter (\<lambda>x. fst x \<le> ?T) ?A @ (?T, Check) # filter (\<lambda>x. ?T < fst x) ?A"
    unfolding play_timers_def
    using sort_key_snoc_sorted [OF sorted_attempt_delays, of 0 es "(?T, Check)"]
    by simp
  then have "attempt_calls es
        = concat (map call_of (map snd (filter (\<lambda>x. fst x \<le> ?T) ?A @ filter (\<lambda>x. ?T < fst x) ?A)))"
    by (simp add: attempt_calls_def firing_order_def)
  also have "\<dots> = concat (map call_of (map snd ?A))"
    using sorted_filter_split [OF sorted_attempt_delays [of 0 es], of ?T] by simp
  also have "\<dots> = map (\<lambda>kp. PlayVideo (fst kp))
                      (filter (\<lambda>kp. called (attempt (snd kp))) (map snd (enumerate 0 es)))"
    by (rule concat_call_of)
  finally show ?thesis by simp
qed

text \<open>What an attempt does, read off the player.\<close>

lemma called_attempt:
  "called (attempt p) \<longleftrightarrow>
     playVideo p \<and> \<not> throws p
     \<and> (case getPlayerState p of None \<Rightarrow> True
         | Some s \<Rightarrow> s = UNSTARTED \<or> s = PAUSED \<or> s = CUED)"
  by (auto simp: attempt_def nothing_done_def UNSTARTED_def PAUSED_def CUED_def PLAYING_def
        BUFFERING_def split: option.splits)







section \<open>Properties of the client\<close>




text \<open>
  Left out of the statement above: an id in the ready set that is an inherited property
  name. With the clip \<open>constructor\<close> made ready and then removed, the registry is empty,
  but the read of the registry under that id gives the inherited value, and \<open>playAll\<close>
  sets the playing flag, broadcasts \<open>play\<close> and sets its timers, for a value no attempt
  can play.
\<close>

lemma inherited_ready_id_starts_play:
  "playAll browser 5 (component_with [''constructor''] [])
   = ((component_with [''constructor''] [])\<lparr>isPlaying := True\<rparr>,
      broadcastSyncEvent browser 5 ''play'' no_data,
      [(''constructor'', prototype_member)])
   \<and> attempt_calls [(''constructor'', prototype_member)] = []"
  by (simp add: component_def component_with_def browser_def playAll_def readyPlayersArray_def
        ready_entries_def List.map_filter_def prop_get_def inherited_def clip_def
        prototype_member_def attempt_calls_eq called_attempt)

text \<open>
  Claim C3. The claim is that the storage slot is written only when the broadcast
  channel is unavailable. In a window that has the broadcast channel, the code posts
  the event on the channel and writes the same event to the storage slot as well.
\<close>

theorem publish_writes_both:
  "broadcastSyncEvent browser 7 ''pause'' no_data
   = [PostMessage \<lparr>type_ev = ''pause'', data_ev = no_data, timestamp = 7, windowId = ''main''\<rparr>,
      SetItem ''viewsync_event''
        \<lparr>type_ev = ''pause'', data_ev = no_data, timestamp = 7, windowId = ''main''\<rparr>]"
  by (simp add: broadcastSyncEvent_def own_id_def browser_def Let_def)

text \<open>
  Claim C6. An event whose \<open>windowId\<close> is the subscriber's own identity is never passed
  to \<open>handleSyncEvent\<close>, whether it arrives as a message of the broadcast channel or as
  a change of the storage slot: neither listener calls it, and the component is left
  as it was with no player called.
\<close>

theorem own_events_not_applied:
  assumes "windowId event = own_id e"
  shows "handleBroadcastMessage e (Some event) = None
       \<and> handleStorageChange e key (Some (Encoded event)) = None
       \<and> applied_event e (ChannelMessage (Some event)) = None
       \<and> applied_event e (StorageEvent key (Some (Encoded event))) = None
       \<and> receive e a (ChannelMessage (Some event)) = (a, [])
       \<and> receive e a (StorageEvent key (Some (Encoded event))) = (a, [])"
  using assms
  by (simp add: handleBroadcastMessage_def handleStorageChange_def applied_event_def receive_def)

theorem own_events_not_applied_witness:
  "windowId \<lparr>type_ev = ''play'', data_ev = no_data, timestamp = 7, windowId = ''main''\<rparr>
     = own_id browser
   \<and> handleBroadcastMessage browser
        (Some \<lparr>type_ev = ''play'', data_ev = no_data, timestamp = 7, windowId = ''main''\<rparr>) = None
   \<and> handleStorageChange browser ''viewsync_event''
        (Some (Encoded \<lparr>type_ev = ''play'', data_ev = no_data, timestamp = 7,
                        windowId = ''main''\<rparr>)) = None
   \<and> receive browser (component [(''a'', handle_in PAUSED)])
        (ChannelMessage
           (Some \<lparr>type_ev = ''play'', data_ev = no_data, timestamp = 7, windowId = ''main''\<rparr>))
       = (component [(''a'', handle_in PAUSED)], [])"
  using own_events_not_applied
          [of "\<lparr>type_ev = ''play'', data_ev = no_data, timestamp = 7, windowId = ''main''\<rparr>"
              browser "''viewsync_event''" "component [(''a'', handle_in PAUSED)]"]
  by (simp add: own_id_def browser_def)

text \<open>
  Claim C7. When a player reports that it is playing or paused (the player API being
  loaded), the local playing flag is set accordingly, and the broadcast routine is run
  if and only if the player's clip is the first clip of the list: for every other clip
  nothing is broadcast. With a transport that works, an event goes out exactly in the
  first case.
\<close>

theorem master_only_broadcast:
  assumes "yt_api e" and "d = PLAYING \<or> d = PAUSED"
  shows "fst (onPlayerStateChange e now a k d) = a\<lparr>isPlaying := (d = PLAYING)\<rparr>
       \<and> snd (onPlayerStateChange e now a k d)
           = (if videos a \<noteq> [] \<and> id_video (hd (videos a)) = k
              then broadcastSyncEvent e now (if d = PLAYING then ''play'' else ''pause'')
                     \<lparr>time = None, videoId = Some k\<rparr>
              else [])
       \<and> (broadcastChannel e \<or> localStorage_ok e \<longrightarrow>
            (snd (onPlayerStateChange e now a k d) \<noteq> []
               \<longleftrightarrow> videos a \<noteq> [] \<and> id_video (hd (videos a)) = k))"
  using assms
  by (auto simp: onPlayerStateChange_def isFirstVideo_def PLAYING_def PAUSED_def
        broadcastSyncEvent_def Let_def split: list.splits)

theorem master_only_broadcast_witness:
  "yt_api browser \<and> (PLAYING = PLAYING \<or> PLAYING = PAUSED) \<and> (PAUSED = PLAYING \<or> PAUSED = PAUSED)
   \<and> (broadcastChannel browser \<or> localStorage_ok browser)
   \<and> fst (onPlayerStateChange browser 7 (component []) ''a'' PLAYING)
       = (component [])\<lparr>isPlaying := True\<rparr>
   \<and> snd (onPlayerStateChange browser 7 (component []) ''a'' PLAYING) \<noteq> []
   \<and> fst (onPlayerStateChange browser 7 ((component [])\<lparr>isPlaying := True\<rparr>) ''b'' PAUSED)
       = (component [])\<lparr>isPlaying := False\<rparr>
   \<and> snd (onPlayerStateChange browser 7 ((component [])\<lparr>isPlaying := True\<rparr>) ''b'' PAUSED) = []"
  using master_only_broadcast [of browser PLAYING 7 "component []" "''a''"]
    master_only_broadcast [of browser PAUSED 7 "(component [])\<lparr>isPlaying := True\<rparr>" "''b''"]
  by (simp add: browser_def component_def clip_def PLAYING_def PAUSED_def
        broadcastSyncEvent_def Let_def)

end
